theory Spec2Isabelle
  imports Main "HOL-Library.Word"
begin

section \<open>JavaScript strings\<close>

text \<open>
  A JavaScript string is a sequence of 16-bit code units, and every string operation of
  \<^verbatim>\<open>src/pages/Home.tsx\<close> (\<^verbatim>\<open>split\<close>, \<^verbatim>\<open>replace\<close>, \<^verbatim>\<open>trim\<close>,
  \<^verbatim>\<open>substring\<close>, \<^verbatim>\<open>startsWith\<close>, \<^verbatim>\<open>includes\<close>, \<^verbatim>\<open>join\<close>) works on
  code units. All characters the formatter looks at lie in the Basic Multilingual Plane,
  so a code unit is compared with a code point directly.
\<close>

type_synonym code_unit = "16 word"
type_synonym jsstring = "code_unit list"

definition js :: "string \<Rightarrow> jsstring" where
  \<comment> \<open>an ASCII literal of the source, as code units\<close>
  "js s = map (\<lambda>c. word_of_nat (of_char c)) s"

definition NEWLINE :: code_unit where "NEWLINE = 0x000A"
definition ASTERISK :: code_unit where "ASTERISK = 0x002A"
definition UNDERSCORE :: code_unit where "UNDERSCORE = 0x005F"
definition HASH :: code_unit where "HASH = 0x0023"
definition BACKTICK :: code_unit where "BACKTICK = 0x0060"
definition DASH :: code_unit where "DASH = 0x002D"
definition COLON :: code_unit where "COLON = 0x003A"
definition PERIOD :: code_unit where "PERIOD = 0x002E"

definition isWhiteSpace :: "code_unit \<Rightarrow> bool" where
  \<comment> \<open>ECMAScript WhiteSpace and LineTerminator: what \<^verbatim>\<open>trim()\<close> removes and what
      \<^verbatim>\<open>\s\<close> matches\<close>
  "isWhiteSpace c \<longleftrightarrow>
     c = 0x0009 \<or> c = 0x000A \<or> c = 0x000B \<or> c = 0x000C \<or> c = 0x000D \<or> c = 0x0020 \<or>
     c = 0x00A0 \<or> c = 0x1680 \<or> (0x2000 \<le> c \<and> c \<le> 0x200A) \<or> c = 0x2028 \<or>
     c = 0x2029 \<or> c = 0x202F \<or> c = 0x205F \<or> c = 0x3000 \<or> c = 0xFEFF"

definition isDigit :: "code_unit \<Rightarrow> bool" where
  \<comment> \<open>the class \<^verbatim>\<open>\d\<close>: the ten ASCII digits\<close>
  "isDigit c \<longleftrightarrow> 0x0030 \<le> c \<and> c \<le> 0x0039"

definition isMarkdown :: "code_unit \<Rightarrow> bool" where
  \<comment> \<open>the class \<^verbatim>\<open>[*_#`]\<close>\<close>
  "isMarkdown c \<longleftrightarrow> c = ASTERISK \<or> c = UNDERSCORE \<or> c = HASH \<or> c = BACKTICK"

definition trim :: "jsstring \<Rightarrow> jsstring" where
  \<comment> \<open>\<^verbatim>\<open>String.prototype.trim\<close>\<close>
  "trim s = rev (dropWhile isWhiteSpace (rev (dropWhile isWhiteSpace s)))"

fun split :: "code_unit \<Rightarrow> jsstring \<Rightarrow> jsstring list" where
  \<comment> \<open>\<^verbatim>\<open>String.prototype.split\<close> with a one-character separator and no limit:
      the empty string gives one empty part\<close>
  "split sep [] = [[]]"
| "split sep (c # cs) =
     (if c = sep then [] # split sep cs
      else (case split sep cs of
              [] \<Rightarrow> [[c]]
            | p # ps \<Rightarrow> (c # p) # ps))"

fun join :: "code_unit \<Rightarrow> jsstring list \<Rightarrow> jsstring" where
  \<comment> \<open>\<^verbatim>\<open>Array.prototype.join\<close> with a one-character separator\<close>
  "join sep [] = []"
| "join sep [p] = p"
| "join sep (p # q # ps) = p @ sep # join sep (q # ps)"

definition startsWith :: "jsstring \<Rightarrow> jsstring \<Rightarrow> bool" where
  \<comment> \<open>\<^verbatim>\<open>s.startsWith(p)\<close>\<close>
  "startsWith s p \<longleftrightarrow> take (length p) s = p"

definition includesChar :: "jsstring \<Rightarrow> code_unit \<Rightarrow> bool" where
  \<comment> \<open>\<^verbatim>\<open>s.includes(c)\<close> for a one-character search string\<close>
  "includesChar s c \<longleftrightarrow> c \<in> set s"

definition substring :: "jsstring \<Rightarrow> nat \<Rightarrow> jsstring" where
  \<comment> \<open>\<^verbatim>\<open>s.substring(n)\<close>: from index \<open>n\<close> to the end, empty when \<open>n\<close> is past the end\<close>
  "substring s n = drop n s"

definition removeMarkdown :: "jsstring \<Rightarrow> jsstring" where
  \<comment> \<open>\<^verbatim>\<open>line.replace(/[*_#`]/g, '')\<close>: every match of the class is deleted\<close>
  "removeMarkdown line = filter (\<lambda>c. \<not> isMarkdown c) line"

definition headerTest :: "jsstring \<Rightarrow> bool" where
  \<comment> \<open>\<^verbatim>\<open>/^\d+\./.test(s)\<close>: the longest run of digits at the start is not empty and a
      period follows it (a shorter run is followed by a digit, so backtracking finds nothing else)\<close>
  "headerTest s \<longleftrightarrow>
     (case dropWhile isDigit s of
        [] \<Rightarrow> False
      | c # _ \<Rightarrow> takeWhile isDigit s \<noteq> [] \<and> c = PERIOD)"

definition headerStrip :: "jsstring \<Rightarrow> jsstring" where
  \<comment> \<open>\<^verbatim>\<open>s.replace(/^\d+\.\s*/, '')\<close>: the match (digits, period, the longest run of
      white space) is deleted; a string that does not match is returned as it is\<close>
  "headerStrip s =
     (if headerTest s then dropWhile isWhiteSpace (drop 1 (dropWhile isDigit s)) else s)"

section \<open>The analysis formatter\<close>

text \<open>
  \<^verbatim>\<open>formatAnalysis\<close> returns React elements. Four shapes occur; each carries the
  strings placed in it, and every element has \<^verbatim>\<open>key={index}\<close>:
  \<^item> \<open>SectionHeader title\<close>: \<^verbatim>\<open><div><h3>{title}</h3></div>\<close>;
  \<^item> \<open>LabeledField label value\<close>: \<^verbatim>\<open><div><span>{label}:</span><span>{value}</span></div>\<close>;
  \<^item> \<open>BulletItem text\<close>: \<^verbatim>\<open><div><span>(bullet)</span><span>{text}</span></div>\<close>;
  \<^item> \<open>Paragraph text\<close>: \<^verbatim>\<open><p>{text}</p>\<close>.
\<close>

datatype Segment =
    SectionHeader jsstring
  | LabeledField jsstring jsstring
  | BulletItem jsstring
  | Paragraph jsstring

type_synonym element = "nat \<times> Segment"  \<comment> \<open>the key and the content\<close>

datatype js_error = TypeError

definition cleanLine :: "jsstring \<Rightarrow> jsstring" where
  "cleanLine line = trim (removeMarkdown line)"

definition formatLine :: "nat \<Rightarrow> jsstring \<Rightarrow> js_error + element option" where
  \<comment> \<open>the callback given to \<^verbatim>\<open>map\<close>; \<open>None\<close> is \<^verbatim>\<open>null\<close>. Destructuring
      \<^verbatim>\<open>[label, ...valueParts]\<close> of an empty array would leave \<^verbatim>\<open>label\<close> undefined and
      \<^verbatim>\<open>label.trim()\<close> would throw\<close>
  "formatLine index line =
     (let clean = cleanLine line in
      if clean = [] then Inr None
      else if headerTest clean then
        Inr (Some (index, SectionHeader (headerStrip clean)))
      else if startsWith clean [DASH] \<and> includesChar clean COLON then
        (case split COLON (substring clean 1) of
           [] \<Rightarrow> Inl TypeError
         | label # valueParts \<Rightarrow>
             Inr (Some (index, LabeledField (trim label) (trim (join COLON valueParts)))))
      else if startsWith clean [DASH] then
        Inr (Some (index, BulletItem (trim (substring clean 1))))
      else Inr (Some (index, Paragraph clean)))"

fun mapIndexed :: "(nat \<Rightarrow> 'a \<Rightarrow> js_error + 'b) \<Rightarrow> nat \<Rightarrow> 'a list \<Rightarrow> js_error + 'b list" where
  \<comment> \<open>\<^verbatim>\<open>Array.prototype.map\<close> with the index, from index \<open>i\<close> on; an exception thrown by the
      callback ends the whole call\<close>
  "mapIndexed f i [] = Inr []"
| "mapIndexed f i (x # xs) =
     (case f i x of
        Inl e \<Rightarrow> Inl e
      | Inr y \<Rightarrow> (case mapIndexed f (Suc i) xs of
                   Inl e \<Rightarrow> Inl e
                 | Inr ys \<Rightarrow> Inr (y # ys)))"

fun filterBoolean :: "'a option list \<Rightarrow> 'a list" where
  \<comment> \<open>\<^verbatim>\<open>.filter(Boolean)\<close>: \<^verbatim>\<open>null\<close> is dropped, an element (an object) is kept\<close>
  "filterBoolean [] = []"
| "filterBoolean (None # xs) = filterBoolean xs"
| "filterBoolean (Some x # xs) = x # filterBoolean xs"

definition formatAnalysis :: "jsstring \<Rightarrow> js_error + element list" where
  "formatAnalysis text =
     (case mapIndexed formatLine 0 (split NEWLINE text) of
        Inl e \<Rightarrow> Inl e
      | Inr els \<Rightarrow> Inr (filterBoolean els))"

section \<open>The page state and its event handlers\<close>

text \<open>
  The component \<^verbatim>\<open>Home\<close> keeps four state variables. Its handlers run to completion one
  at a time; what they ask of the browser (reading a file, calling \<^verbatim>\<open>analyzeImage\<close>) is
  returned as a list of effects, and the browser's answer arrives as a later callback.
\<close>

record page_state =
  image_st :: "jsstring option"  \<comment> \<open>\<^verbatim>\<open>image\<close>, initially \<^verbatim>\<open>null\<close>\<close>
  analysis :: jsstring           \<comment> \<open>initially the empty string\<close>
  loading :: bool
  error :: "jsstring option"     \<comment> \<open>initially \<^verbatim>\<open>null\<close>\<close>

record File =
  file_type :: jsstring  \<comment> \<open>\<^verbatim>\<open>file.type\<close>, the MIME type the browser reports\<close>
  file_size :: nat       \<comment> \<open>\<^verbatim>\<open>file.size\<close>, in bytes\<close>

definition flagPrompt :: jsstring where
  "flagPrompt = join NEWLINE
     [js ''Analyze this flag image for educational purposes and provide the following information:'',
      js ''1. Flag identification (country/entity, type, adoption date, aspect ratio, nicknames)'',
      js ''2. Design elements (colors, symbols, pattern, symbolic meaning)'',
      js ''3. Historical context (origin, designer, evolution, significant events, cultural impact)'',
      js ''4. Protocol and usage (official status, display guidelines, half-staff protocol, disposal method)'',
      js ''5. Additional information (related celebrations, similar flags, international recognition, interesting facts)'',
      [],
      js ''IMPORTANT: This is for educational purposes only.'']"

datatype effect =
    FetchDefaultImage                      \<comment> \<open>\<^verbatim>\<open>fetch(DEFAULT_IMAGE)\<close>\<close>
  | ReadDefaultBlob                        \<comment> \<open>\<^verbatim>\<open>reader.readAsDataURL(blob)\<close> of the default image\<close>
  | ReadAsDataURL File                     \<comment> \<open>\<^verbatim>\<open>reader.readAsDataURL(file)\<close>\<close>
  | ResetFileInput                         \<comment> \<open>\<^verbatim>\<open>e.target.value = ''\<close>\<close>
  | AnalyzeImage "jsstring option" jsstring  \<comment> \<open>\<^verbatim>\<open>analyzeImage(imageData, flagPrompt)\<close>\<close>

definition acceptAttribute :: "jsstring list" where
  \<comment> \<open>the \<^verbatim>\<open>accept\<close> attribute of the file input: a filter of the browser's file
      picker, which the user can lift; the handler does not read it\<close>
  "acceptAttribute = [js ''image/jpeg'', js ''image/png'', js ''image/jpg'', js ''image/webp'']"

definition MAX_SIZE :: nat where
  "MAX_SIZE = 20 * 1024 * 1024"

fun handleImageUpload :: "File option \<Rightarrow> page_state \<Rightarrow> page_state \<times> effect list" where
  \<comment> \<open>the argument is \<^verbatim>\<open>e.target.files?.[0]\<close>\<close>
  "handleImageUpload None s = (s, [])"
| "handleImageUpload (Some f) s =
     (if \<not> startsWith (file_type f) (js ''image/'') then
        (s\<lparr>error := Some (js ''Please upload a valid image file'')\<rparr>, [])
      else if file_size f > MAX_SIZE then
        (s\<lparr>error := Some (js ''Image size should be less than 20MB'')\<rparr>, [])
      else (s, [ReadAsDataURL f, ResetFileInput]))"

definition handleAnalyze :: "jsstring option \<Rightarrow> page_state \<Rightarrow> page_state \<times> effect list" where
  \<comment> \<open>\<^verbatim>\<open>handleAnalyze\<close> up to its \<^verbatim>\<open>await\<close>\<close>
  "handleAnalyze imageData s = (s\<lparr>loading := True, error := None\<rparr>, [AnalyzeImage imageData flagPrompt])"

datatype thrown =
    ErrorObject jsstring  \<comment> \<open>\<^verbatim>\<open>err instanceof Error\<close>, with its \<^verbatim>\<open>message\<close>\<close>
  | OtherValue

datatype outcome = Resolved jsstring | Rejected thrown

fun handleAnalyzeSettled :: "outcome \<Rightarrow> page_state \<Rightarrow> page_state" where
  \<comment> \<open>\<^verbatim>\<open>handleAnalyze\<close> after its \<^verbatim>\<open>await\<close>: the \<^verbatim>\<open>try\<close> or the \<^verbatim>\<open>catch\<close> branch,
      then \<^verbatim>\<open>finally\<close>\<close>
  "handleAnalyzeSettled (Resolved result) s = s\<lparr>analysis := result, loading := False\<rparr>"
| "handleAnalyzeSettled (Rejected (ErrorObject message)) s =
     s\<lparr>error := Some message, loading := False\<rparr>"
| "handleAnalyzeSettled (Rejected OtherValue) s =
     s\<lparr>error := Some (js ''Failed to analyze image. Please try again.''), loading := False\<rparr>"

definition readerOnloadend :: "jsstring option \<Rightarrow> page_state \<Rightarrow> page_state \<times> effect list" where
  \<comment> \<open>\<^verbatim>\<open>reader.onloadend\<close>; the argument is \<^verbatim>\<open>reader.result\<close>, which is
      \<^verbatim>\<open>null\<close> when nothing was read\<close>
  "readerOnloadend base64String s =
     handleAnalyze base64String (s\<lparr>image_st := base64String, error := None\<rparr>)"

definition readerOnerror :: "page_state \<Rightarrow> page_state \<times> effect list" where
  "readerOnerror s =
     (s\<lparr>error := Some (js ''Failed to read the image file. Please try again.'')\<rparr>, [])"

definition identifyClick :: "page_state \<Rightarrow> page_state \<times> effect list" where
  \<comment> \<open>the button \<^verbatim>\<open>onClick={() => handleAnalyze(image)}\<close>: rendered only when
      \<^verbatim>\<open>image\<close> is set, disabled while \<^verbatim>\<open>loading\<close>\<close>
  "identifyClick s =
     (case image_st s of
        None \<Rightarrow> (s, [])
      | Some img \<Rightarrow> if loading s then (s, []) else handleAnalyze (Some img) s)"

definition DEFAULT_ANALYSIS :: jsstring where
  \<comment> \<open>the template literal, line by line\<close>
  \<open>DEFAULT_ANALYSIS = join NEWLINE
     [js ''1. Flag Identification:'',
      js ''- Country: United States of America'',
      js ''- Type: National flag'',
      js ''- Adoption Date: June 14, 1777 (original design), July 4, 1960 (current 50-star design)'',
      js ''- Aspect Ratio: 10:19'',
      js ''- Nicknames: "Stars and Stripes", "Old Glory", "The Star-Spangled Banner"'',
      [],
      js ''2. Design Elements:'',
      js ''- Colors: Red, White, and Blue'',
      js ''- Symbols: 50 white stars on blue canton representing the 50 states, 13 alternating red and white stripes representing the original 13 colonies'',
      js ''- Pattern: Rectangular, with a blue rectangle in the upper hoist-side corner'',
      js ''- Symbolic Meaning: Stars represent the states in the union, stripes represent the founding colonies, colors represent valor (red), purity and innocence (white), vigilance, perseverance and justice (blue)'',
      [],
      js ''3. Historical Context:'',
      js ''- Origin: Based on the "Grand Union Flag" and influenced by the British East India Company flag'',
      js ''- Designer: Unclear for the original, but officially attributed to congressman Francis Hopkinson'',
      js ''- Evolution: Has changed 27 times as stars were added for new states'',
      js ''- Significant Events: Inspired the national anthem after the Battle of Fort McHenry (1814)'',
      js ''- Cultural Impact: One of the most recognizable flags in the world'',
      [],
      js ''4. Protocol & Usage:'',
      js ''- Official Status: National flag of the United States'',
      js ''- Display Guidelines: Should not touch the ground, typically flown from sunrise to sunset'',
      js ''- Half-Staff Protocol: By presidential proclamation following significant deaths or tragedies'',
      js ''- Disposal Method: Should be burned respectfully when no longer serviceable'',
      js ''- Pledge of Allegiance: Associated with flag salute in schools and public events'',
      [],
      js ''5. Additional Information:'',
      js ''- Flag Day: Celebrated annually on June 14th'',
      js ''- Similar Flags: Liberia, Malaysia, and Chile have somewhat similar designs'',
      js ''- International Recognition: Universally recognized symbol of the United States'',
      js ''- Moon Placement: Six American flags have been placed on the Moon by Apollo missions'',
      js ''- Interesting Facts: The current 50-star design was created by a high school student, Robert G. Heft, as a school project'']\<close>

definition loadDefaultContent :: "page_state \<Rightarrow> page_state \<times> effect list" where
  \<comment> \<open>the effect run once after mounting, up to its \<^verbatim>\<open>await fetch\<close>\<close>
  "loadDefaultContent s = (s\<lparr>loading := True\<rparr>, [FetchDefaultImage])"

definition defaultFetchSettled :: "bool \<Rightarrow> page_state \<Rightarrow> page_state \<times> effect list" where
  \<comment> \<open>after \<^verbatim>\<open>await fetch\<close>: the argument tells whether a response came with
      \<^verbatim>\<open>response.ok\<close>; otherwise the \<^verbatim>\<open>catch\<close> branch runs\<close>
  "defaultFetchSettled ok s =
     (if ok then (s, [ReadDefaultBlob])
      else (s\<lparr>error := Some (js ''Failed to load default image''), loading := False\<rparr>, []))"

definition defaultReaderOnloadend :: "jsstring option \<Rightarrow> page_state \<Rightarrow> page_state \<times> effect list" where
  "defaultReaderOnloadend base64data s =
     (s\<lparr>image_st := base64data, analysis := DEFAULT_ANALYSIS, loading := False\<rparr>, [])"

definition defaultReaderOnerror :: "page_state \<Rightarrow> page_state \<times> effect list" where
  "defaultReaderOnerror s =
     (s\<lparr>error := Some (js ''Failed to load default image''), loading := False\<rparr>, [])"

definition initialState :: page_state where
  \<comment> \<open>the arguments of the four \<^verbatim>\<open>useState\<close> calls\<close>
  "initialState = \<lparr>image_st = None, analysis = [], loading = False, error = None\<rparr>"

datatype event =
    Mounted
  | DefaultFetchSettled bool
  | DefaultReaderLoadEnd "jsstring option"
  | DefaultReaderError
  | Upload "File option"
  | ReaderLoadEnd "jsstring option"
  | ReaderError
  | IdentifyClick
  | AnalysisSettled outcome

fun step :: "event \<Rightarrow> page_state \<Rightarrow> page_state \<times> effect list" where
  "step Mounted s = loadDefaultContent s"
| "step (DefaultFetchSettled ok) s = defaultFetchSettled ok s"
| "step (DefaultReaderLoadEnd r) s = defaultReaderOnloadend r s"
| "step DefaultReaderError s = defaultReaderOnerror s"
| "step (Upload f) s = handleImageUpload f s"
| "step (ReaderLoadEnd r) s = readerOnloadend r s"
| "step ReaderError s = readerOnerror s"
| "step IdentifyClick s = identifyClick s"
| "step (AnalysisSettled out) s = (handleAnalyzeSettled out s, [])"

fun run :: "event list \<Rightarrow> page_state \<Rightarrow> page_state" where
  "run [] s = s"
| "run (e # es) s = run es (fst (step e s))"

fun segmentStrings :: "Segment \<Rightarrow> jsstring list" where
  \<comment> \<open>the strings an element shows\<close>
  "segmentStrings (SectionHeader title) = [title]"
| "segmentStrings (LabeledField label val) = [label, val]"
| "segmentStrings (BulletItem text) = [text]"
| "segmentStrings (Paragraph text) = [text]"

section \<open>Strings: splitting, joining, trimming\<close>

lemma split_not_Nil: "split sep s \<noteq> []"
  by (induction s) (auto split: list.splits)

lemma split_without_sep: "sep \<notin> set s \<Longrightarrow> split sep s = [s]"
  by (induction s) auto

lemma split_at_first_sep: "sep \<notin> set a \<Longrightarrow> split sep (a @ sep # b) = a # split sep b"
  by (induction a) auto

lemma join_split: "join sep (split sep s) = s"
proof (induction s)
  case Nil
  show ?case by simp
next
  case (Cons c cs)
  obtain p ps where ps: "split sep cs = p # ps"
    using split_not_Nil [of sep cs] by (cases "split sep cs") auto
  show ?case
  proof (cases "c = sep")
    case True
    with ps Cons show ?thesis by simp
  next
    case False
    with ps Cons show ?thesis by (cases ps) auto
  qed
qed

lemma first_sep_decomp:
  "sep \<in> set s \<Longrightarrow>
   s = takeWhile (\<lambda>c. c \<noteq> sep) s @ sep # drop 1 (dropWhile (\<lambda>c. c \<noteq> sep) s)"
  by (induction s) auto

lemma set_trim: "set (trim s) \<subseteq> set s"
proof -
  have "set (trim s) \<subseteq> set (dropWhile isWhiteSpace s)"
    unfolding trim_def using set_dropWhileD by fastforce
  also have "\<dots> \<subseteq> set s"
    using set_dropWhileD by fastforce
  finally show ?thesis .
qed

lemma set_join: "set (join sep ps) \<subseteq> insert sep (\<Union>(set ` set ps))"
  by (induction sep ps rule: join.induct) auto

lemma set_split: "p \<in> set (split sep s) \<Longrightarrow> set p \<subseteq> set s"
proof (induction s arbitrary: p)
  case Nil
  then show ?case by simp
next
  case (Cons c cs)
  show ?case
  proof (cases "split sep cs")
    case Nil
    with Cons.prems show ?thesis by (auto split: if_splits)
  next
    case (Cons q qs)
    have q: "set q \<subseteq> set cs" and qs: "\<And>r. r \<in> set qs \<Longrightarrow> set r \<subseteq> set cs"
      using Cons.IH Cons by auto
    from Cons.prems Cons show ?thesis
      using q qs by (auto split: if_splits)
  qed
qed

section \<open>The formatter, line by line\<close>

lemma cleanLine_no_markdown: "c \<in> set (cleanLine line) \<Longrightarrow> \<not> isMarkdown c"
  using set_trim [of "removeMarkdown line"] by (auto simp: cleanLine_def removeMarkdown_def)

lemma formatLine_total: "\<exists>r. formatLine i line = Inr r"
  using split_not_Nil [of COLON "substring (cleanLine line) 1"]
  by (auto simp: formatLine_def Let_def split: list.splits)

lemma mapIndexed_formatLine:
  "\<exists>els. mapIndexed formatLine i ls = Inr els \<and>
         filterBoolean els = map (\<lambda>(k, l). the (projr (formatLine k l)))
                               [(k, l) \<leftarrow> enumerate i ls. cleanLine l \<noteq> []]"
proof (induction ls arbitrary: i)
  case Nil
  show ?case by simp
next
  case (Cons l ls)
  obtain els where els: "mapIndexed formatLine (Suc i) ls = Inr els"
    and fb: "filterBoolean els = map (\<lambda>(k, l). the (projr (formatLine k l)))
                               [(k, l) \<leftarrow> enumerate (Suc i) ls. cleanLine l \<noteq> []]"
    using Cons.IH [of "Suc i"] by blast
  obtain r where r: "formatLine i l = Inr r"
    using formatLine_total by blast
  have blank: "cleanLine l = [] \<Longrightarrow> r = None"
    using r by (simp add: formatLine_def)
  have nonblank: "cleanLine l \<noteq> [] \<Longrightarrow> \<exists>e. r = Some e"
    using r split_not_Nil [of COLON "substring (cleanLine l) 1"]
    by (auto simp: formatLine_def Let_def split: list.splits if_splits)
  show ?case
  proof (cases "cleanLine l = []")
    case True
    with blank els fb r show ?thesis by simp
  next
    case False
    with nonblank obtain e where "r = Some e" by blast
    with False els fb r show ?thesis by simp
  qed
qed

lemma formatLine_blank: "cleanLine l = [] \<Longrightarrow> formatLine k l = Inr None"
  by (simp add: formatLine_def)

lemma formatLine_nonblank:
  "cleanLine l \<noteq> [] \<Longrightarrow> \<exists>seg. formatLine k l = Inr (Some (k, seg))"
  using split_not_Nil [of COLON "substring (cleanLine l) 1"]
  by (auto simp: formatLine_def Let_def split: list.splits)

lemma enumerate_keys_increasing: "sorted_wrt (<) (map fst (filter P (enumerate i ls)))"
proof -
  have "sorted_wrt (<) (map fst (enumerate i ls))"
    by (simp add: map_fst_enumerate)
  then show ?thesis
    by (metis sorted_wrt_filter sorted_wrt_map)
qed

section \<open>Totality\<close>

text \<open>
  Claim C7. \<^verbatim>\<open>formatAnalysis\<close> is total: for every string, the empty one, one of white
  space only and one without any structure included, it returns a sequence of elements and
  throws nothing; the empty string gives the empty sequence. (It is a function of its
  argument alone: the model has no state to read.) The only place where the source could
  throw is \<^verbatim>\<open>label.trim()\<close>, and \<^verbatim>\<open>split\<close> never returns an empty array.
\<close>

theorem formatAnalysis_total:
  "(\<exists>els. formatAnalysis text = Inr els) \<and> formatAnalysis [] = Inr []"
proof
  obtain els where "mapIndexed formatLine 0 (split NEWLINE text) = Inr els"
    using mapIndexed_formatLine by blast
  then show "\<exists>els. formatAnalysis text = Inr els"
    by (simp add: formatAnalysis_def)
next
  have "formatLine 0 [] = Inr None"
    by (simp add: formatLine_def cleanLine_def removeMarkdown_def trim_def)
  then show "formatAnalysis [] = Inr []"
    by (simp add: formatAnalysis_def)
qed

section \<open>One element for each line that is not empty once cleaned\<close>

text \<open>
  Claim C2, as stated, counts a line as blank when it is empty after trimming. The source
  tests the clean line, from which the markdown characters are gone as well: the one-line
  text \<^verbatim>\<open>**\<close> is not blank after trimming, and no element is emitted for it.
\<close>

theorem blank_after_trimming_counterexample:
  "split NEWLINE (js ''**'') = [js ''**''] \<and> trim (js ''**'') \<noteq> [] \<and>
   formatAnalysis (js ''**'') = Inr []"
  by code_simp

text \<open>
  Claim C2, amended. For every text, the emitted elements are, in order, what the callback
  returns for the lines whose clean form (markdown characters removed, then trimmed) is not
  empty, one element for each such line with the index of the line as its key; the keys
  increase strictly; and the callback returns \<^verbatim>\<open>null\<close> for every line whose clean form
  is empty.
\<close>

theorem segments_follow_clean_lines:
  "\<exists>els. formatAnalysis text = Inr els \<and>
     map (\<lambda>e. Inr (Some e)) els =
       map (\<lambda>(k, l). formatLine k l)
         [(k, l) \<leftarrow> enumerate 0 (split NEWLINE text). cleanLine l \<noteq> []] \<and>
     map fst els = map fst [(k, l) \<leftarrow> enumerate 0 (split NEWLINE text). cleanLine l \<noteq> []] \<and>
     sorted_wrt (<) (map fst els) \<and>
     map (\<lambda>(k, l). formatLine k l)
         [(k, l) \<leftarrow> enumerate 0 (split NEWLINE text). cleanLine l = []] =
       map (\<lambda>_. Inr None) [(k, l) \<leftarrow> enumerate 0 (split NEWLINE text). cleanLine l = []]"
proof -
  let ?nb = "[(k, l) \<leftarrow> enumerate 0 (split NEWLINE text). cleanLine l \<noteq> []]"
  let ?bl = "[(k, l) \<leftarrow> enumerate 0 (split NEWLINE text). cleanLine l = []]"
  obtain raw where raw: "mapIndexed formatLine 0 (split NEWLINE text) = Inr raw"
    and fb: "filterBoolean raw = map (\<lambda>(k, l). the (projr (formatLine k l))) ?nb"
    using mapIndexed_formatLine by blast
  define els where "els = filterBoolean raw"
  have fa: "formatAnalysis text = Inr els"
    by (simp add: formatAnalysis_def raw els_def)
  have same: "map (\<lambda>e. Inr (Some e)) els = map (\<lambda>(k, l). formatLine k l) ?nb"
    unfolding els_def fb map_map
  proof (rule map_cong [OF refl])
    fix x assume "x \<in> set ?nb"
    then obtain k l where x: "x = (k, l)" and "cleanLine l \<noteq> []" by auto
    then obtain seg where "formatLine k l = Inr (Some (k, seg))"
      using formatLine_nonblank by blast
    with x show "((\<lambda>e. Inr (Some e)) \<circ> (\<lambda>(k, l). the (projr (formatLine k l)))) x
                 = (case x of (k, l) \<Rightarrow> formatLine k l)"
      by simp
  qed
  have keys: "map fst els = map fst ?nb"
    unfolding els_def fb map_map
  proof (rule map_cong [OF refl])
    fix x assume "x \<in> set ?nb"
    then obtain k l where x: "x = (k, l)" and "cleanLine l \<noteq> []" by auto
    then obtain seg where "formatLine k l = Inr (Some (k, seg))"
      using formatLine_nonblank by blast
    with x show "(fst \<circ> (\<lambda>(k, l). the (projr (formatLine k l)))) x = fst x"
      by simp
  qed
  have incr: "sorted_wrt (<) (map fst els)"
    unfolding keys by (rule enumerate_keys_increasing)
  have blank: "map (\<lambda>(k, l). formatLine k l) ?bl = map (\<lambda>_. Inr None) ?bl"
  proof (rule map_cong [OF refl])
    fix x assume "x \<in> set ?bl"
    then obtain k l where x: "x = (k, l)" and "cleanLine l = []" by auto
    then show "(case x of (k, l) \<Rightarrow> formatLine k l) = Inr None"
      by (simp add: formatLine_blank)
  qed
  from fa same keys incr blank show ?thesis by blast
qed

section \<open>Classifying a clean line\<close>

lemma PERIOD_not_digit: "\<not> isDigit PERIOD"
  by (simp add: isDigit_def PERIOD_def)

lemma DASH_not_digit: "\<not> isDigit DASH"
  by (simp add: isDigit_def DASH_def)

lemma COLON_not_markdown: "\<not> isMarkdown COLON"
  by (simp add: isMarkdown_def COLON_def ASTERISK_def UNDERSCORE_def HASH_def BACKTICK_def)

lemma DASH_not_markdown: "\<not> isMarkdown DASH"
  by (simp add: isMarkdown_def DASH_def ASTERISK_def UNDERSCORE_def HASH_def BACKTICK_def)

lemma COLON_not_space: "\<not> isWhiteSpace COLON"
  by (simp add: isWhiteSpace_def COLON_def)

lemma DASH_not_space: "\<not> isWhiteSpace DASH"
  by (simp add: isWhiteSpace_def DASH_def)

lemma digits_then_period:
  assumes "ds \<noteq> []" and "list_all isDigit ds"
  shows "takeWhile isDigit (ds @ PERIOD # rest) = ds"
    and "dropWhile isDigit (ds @ PERIOD # rest) = PERIOD # rest"
  using assms PERIOD_not_digit by (simp_all add: list_all_iff takeWhile_append2 dropWhile_append2)

lemma headerTest_digits_period:
  "ds \<noteq> [] \<Longrightarrow> list_all isDigit ds \<Longrightarrow> headerTest (ds @ PERIOD # rest)"
  by (simp add: headerTest_def digits_then_period)

lemma headerStrip_digits_period:
  "ds \<noteq> [] \<Longrightarrow> list_all isDigit ds \<Longrightarrow>
   headerStrip (ds @ PERIOD # rest) = dropWhile isWhiteSpace rest"
  by (simp add: headerStrip_def headerTest_digits_period digits_then_period)

lemma formatLine_header:
  assumes "cleanLine line = ds @ PERIOD # rest" and "ds \<noteq> []" and "list_all isDigit ds"
  shows "formatLine i line = Inr (Some (i, SectionHeader (dropWhile isWhiteSpace rest)))"
  using assms headerTest_digits_period [of ds rest] headerStrip_digits_period [of ds rest]
  by (simp add: formatLine_def)

lemma formatAnalysis_single_line:
  assumes "NEWLINE \<notin> set line" and "formatLine 0 line = Inr (Some e)"
  shows "formatAnalysis line = Inr [e]"
  using assms by (simp add: formatAnalysis_def split_without_sep)

lemma headerTest_not_dash: "\<not> headerTest (DASH # rest)"
  by (simp add: headerTest_def DASH_not_digit)

lemma formatLine_field:
  assumes clean: "cleanLine line = DASH # rest" and colon: "includesChar (cleanLine line) COLON"
  shows "formatLine i line =
     Inr (Some (i, LabeledField (trim (takeWhile (\<lambda>c. c \<noteq> COLON) rest))
                                (trim (drop 1 (dropWhile (\<lambda>c. c \<noteq> COLON) rest)))))"
proof -
  let ?lab = "takeWhile (\<lambda>c. c \<noteq> COLON) rest"
  let ?val = "drop 1 (dropWhile (\<lambda>c. c \<noteq> COLON) rest)"
  have "DASH \<noteq> COLON" by (simp add: DASH_def COLON_def)
  with clean colon have in_rest: "COLON \<in> set rest"
    by (auto simp: includesChar_def)
  then have rest: "rest = ?lab @ COLON # ?val"
    by (rule first_sep_decomp)
  have "COLON \<notin> set ?lab"
    by (auto dest: set_takeWhileD)
  then have "split COLON (?lab @ COLON # ?val) = ?lab # split COLON ?val"
    by (rule split_at_first_sep)
  with rest have parts: "split COLON rest = ?lab # split COLON ?val"
    by simp
  show ?thesis
    using clean colon parts headerTest_not_dash [of rest]
    by (simp add: formatLine_def startsWith_def substring_def join_split)
qed

section \<open>Labeled fields\<close>

text \<open>
  Claim C1. For every line whose clean form starts with a dash and contains a colon, the
  formatter emits one \<open>LabeledField\<close>: the label is what stands between the dash and the
  first colon, trimmed, and the value is everything after the first colon, later colons
  included, trimmed (the source splits at every colon and joins all parts but the first
  again). A text that is this one line gives this one element, and
  \<^verbatim>\<open>- Adoption Date: June 14, 1777 (original), July 4, 1960: current\<close> gives the label
  \<^verbatim>\<open>Adoption Date\<close> and the value \<^verbatim>\<open>June 14, 1777 (original), July 4, 1960: current\<close>.
\<close>

theorem labeled_field_splits_at_first_colon:
  "(cleanLine line = DASH # rest \<and> includesChar (cleanLine line) COLON \<longrightarrow>
      formatLine i line =
        Inr (Some (i, LabeledField (trim (takeWhile (\<lambda>c. c \<noteq> COLON) rest))
                                   (trim (drop 1 (dropWhile (\<lambda>c. c \<noteq> COLON) rest))))) \<and>
      (NEWLINE \<notin> set line \<longrightarrow>
         formatAnalysis line =
           Inr [(0, LabeledField (trim (takeWhile (\<lambda>c. c \<noteq> COLON) rest))
                                 (trim (drop 1 (dropWhile (\<lambda>c. c \<noteq> COLON) rest))))])) \<and>
   formatAnalysis (js ''- Adoption Date: June 14, 1777 (original), July 4, 1960: current'') =
     Inr [(0, LabeledField (js ''Adoption Date'')
                           (js ''June 14, 1777 (original), July 4, 1960: current''))]"
proof (intro conjI impI)
  assume h: "cleanLine line = DASH # rest \<and> includesChar (cleanLine line) COLON"
  show "formatLine i line =
        Inr (Some (i, LabeledField (trim (takeWhile (\<lambda>c. c \<noteq> COLON) rest))
                                   (trim (drop 1 (dropWhile (\<lambda>c. c \<noteq> COLON) rest)))))"
    by (rule formatLine_field [OF conjunct1 [OF h] conjunct2 [OF h]])
  assume "NEWLINE \<notin> set line"
  moreover have "formatLine 0 line =
        Inr (Some (0, LabeledField (trim (takeWhile (\<lambda>c. c \<noteq> COLON) rest))
                                   (trim (drop 1 (dropWhile (\<lambda>c. c \<noteq> COLON) rest)))))"
    by (rule formatLine_field [OF conjunct1 [OF h] conjunct2 [OF h]])
  ultimately show "formatAnalysis line =
           Inr [(0, LabeledField (trim (takeWhile (\<lambda>c. c \<noteq> COLON) rest))
                                 (trim (drop 1 (dropWhile (\<lambda>c. c \<noteq> COLON) rest))))]"
    by (rule formatAnalysis_single_line)
next
  show "formatAnalysis (js ''- Adoption Date: June 14, 1777 (original), July 4, 1960: current'') =
     Inr [(0, LabeledField (js ''Adoption Date'')
                           (js ''June 14, 1777 (original), July 4, 1960: current''))]"
    by code_simp
qed

text \<open>
  The hypotheses of C1 hold for the line \<^verbatim>\<open>- Aspect Ratio: 10:19\<close> of the default
  analysis, whose value has a colon of its own.
\<close>

theorem labeled_field_witness:
  "cleanLine (js ''- Aspect Ratio: 10:19'') = DASH # js '' Aspect Ratio: 10:19'' \<and>
   includesChar (cleanLine (js ''- Aspect Ratio: 10:19'')) COLON \<and>
   NEWLINE \<notin> set (js ''- Aspect Ratio: 10:19'') \<and>
   formatLine 4 (js ''- Aspect Ratio: 10:19'') =
     Inr (Some (4, LabeledField (js ''Aspect Ratio'') (js ''10:19''))) \<and>
   formatAnalysis (js ''- Aspect Ratio: 10:19'') =
     Inr [(0, LabeledField (js ''Aspect Ratio'') (js ''10:19''))]"
proof -
  let ?line = "js ''- Aspect Ratio: 10:19''"
  let ?rest = "js '' Aspect Ratio: 10:19''"
  have h1: "cleanLine ?line = DASH # ?rest" by code_simp
  have h2: "includesChar (cleanLine ?line) COLON" by code_simp
  have h3: "NEWLINE \<notin> set ?line" by code_simp
  have lab: "trim (takeWhile (\<lambda>c. c \<noteq> COLON) ?rest) = js ''Aspect Ratio''" by code_simp
  have val: "trim (drop 1 (dropWhile (\<lambda>c. c \<noteq> COLON) ?rest)) = js ''10:19''" by code_simp
  note inst = labeled_field_splits_at_first_colon [of ?line ?rest 4, THEN conjunct1, rule_format, OF conjI [OF h1 h2]]
  from inst [THEN conjunct1] inst [THEN conjunct2, rule_format, OF h3] h1 h2 h3
  show ?thesis unfolding lab val by blast
qed

section \<open>Section headers\<close>

text \<open>
  Claim C5. For every line whose clean form starts with one or more digits and a period,
  the formatter emits a \<open>SectionHeader\<close> whose title is the clean line without the digits,
  the period and the white space after it: when the clean line is digits \<open>ds\<close>, a period,
  white space \<open>ws\<close> and a rest \<open>t\<close> that does not start with white space, the title is
  \<open>t\<close>. The text \<^verbatim>\<open>1. Flag Identification\<close> gives the one header
  \<^verbatim>\<open>Flag Identification\<close>.
\<close>

theorem section_header_title:
  "(cleanLine line = ds @ PERIOD # ws @ t \<and> ds \<noteq> [] \<and> list_all isDigit ds \<and>
    list_all isWhiteSpace ws \<and> takeWhile isWhiteSpace t = [] \<longrightarrow>
      formatLine i line = Inr (Some (i, SectionHeader t)) \<and>
      (NEWLINE \<notin> set line \<longrightarrow> formatAnalysis line = Inr [(0, SectionHeader t)])) \<and>
   formatAnalysis (js ''1. Flag Identification'') =
     Inr [(0, SectionHeader (js ''Flag Identification''))]"
proof (intro conjI impI)
  assume h: "cleanLine line = ds @ PERIOD # ws @ t \<and> ds \<noteq> [] \<and> list_all isDigit ds \<and>
    list_all isWhiteSpace ws \<and> takeWhile isWhiteSpace t = []"
  then have "dropWhile isWhiteSpace (ws @ t) = dropWhile isWhiteSpace t"
    by (simp add: list_all_iff dropWhile_append2)
  also have "\<dots> = t"
    using h takeWhile_dropWhile_id [of isWhiteSpace t] by simp
  finally have title: "dropWhile isWhiteSpace (ws @ t) = t" .
  from h title show line: "formatLine i line = Inr (Some (i, SectionHeader t))" for i
    using formatLine_header [of line ds "ws @ t" i] by simp
  assume "NEWLINE \<notin> set line"
  then show "formatAnalysis line = Inr [(0, SectionHeader t)]"
    using line [of 0] by (rule formatAnalysis_single_line)
next
  show "formatAnalysis (js ''1. Flag Identification'') =
     Inr [(0, SectionHeader (js ''Flag Identification''))]"
    by code_simp
qed

text \<open>
  The hypotheses of C5 hold for a header with two digits, two blanks after the period and
  markdown decoration in front.
\<close>

theorem section_header_witness:
  "cleanLine (js ''## 12.  Design Elements:'') = js ''12'' @ PERIOD # js ''  '' @ js ''Design Elements:'' \<and>
   js ''12'' \<noteq> [] \<and> list_all isDigit (js ''12'') \<and> list_all isWhiteSpace (js ''  '') \<and>
   takeWhile isWhiteSpace (js ''Design Elements:'') = [] \<and>
   NEWLINE \<notin> set (js ''## 12.  Design Elements:'') \<and>
   formatLine 7 (js ''## 12.  Design Elements:'') = Inr (Some (7, SectionHeader (js ''Design Elements:''))) \<and>
   formatAnalysis (js ''## 12.  Design Elements:'') = Inr [(0, SectionHeader (js ''Design Elements:''))]"
proof -
  let ?line = "js ''## 12.  Design Elements:''"
  have h1: "cleanLine ?line = js ''12'' @ PERIOD # js ''  '' @ js ''Design Elements:''" by code_simp
  have h2: "js ''12'' \<noteq> []" by code_simp
  have h3: "list_all isDigit (js ''12'')" by code_simp
  have h4: "list_all isWhiteSpace (js ''  '')" by code_simp
  have h5: "takeWhile isWhiteSpace (js ''Design Elements:'') = []" by code_simp
  have h6: "NEWLINE \<notin> set ?line" by code_simp
  have hyp: "cleanLine ?line = js ''12'' @ PERIOD # js ''  '' @ js ''Design Elements:'' \<and>
    js ''12'' \<noteq> [] \<and> list_all isDigit (js ''12'') \<and> list_all isWhiteSpace (js ''  '') \<and>
    takeWhile isWhiteSpace (js ''Design Elements:'') = []"
    using h1 h2 h3 h4 h5 by blast
  note inst = section_header_title [of ?line "js ''12''" "js ''  ''" "js ''Design Elements:''" 7,
      THEN conjunct1, rule_format, OF hyp]
  from inst [THEN conjunct1] inst [THEN conjunct2, rule_format, OF h6] h1 h2 h3 h4 h5 h6
  show ?thesis by blast
qed

text \<open>
  Claim C10. A line whose clean form starts with digits and a period is a \<open>SectionHeader\<close>
  whatever follows the period, a sentence that starts with a decimal number included: only
  the digits, the first period and the white space after it are removed. The line
  \<^verbatim>\<open>3.5 meters is the official width\<close> gives the header
  \<^verbatim>\<open>5 meters is the official width\<close>.
\<close>

theorem decimal_number_becomes_header:
  "(cleanLine line = ds @ PERIOD # rest \<and> ds \<noteq> [] \<and> list_all isDigit ds \<longrightarrow>
      formatLine i line = Inr (Some (i, SectionHeader (dropWhile isWhiteSpace rest)))) \<and>
   formatAnalysis (js ''3.5 meters is the official width'') =
     Inr [(0, SectionHeader (js ''5 meters is the official width''))]"
proof (intro conjI impI)
  assume "cleanLine line = ds @ PERIOD # rest \<and> ds \<noteq> [] \<and> list_all isDigit ds"
  then show "formatLine i line = Inr (Some (i, SectionHeader (dropWhile isWhiteSpace rest)))"
    by (simp add: formatLine_header)
next
  show "formatAnalysis (js ''3.5 meters is the official width'') =
     Inr [(0, SectionHeader (js ''5 meters is the official width''))]"
    by code_simp
qed

text \<open>
  The hypotheses of C10 hold for the line \<^verbatim>\<open>3.5 meters is the official width\<close>
  itself, here as the third line of a text.
\<close>

theorem decimal_number_witness:
  "cleanLine (js ''3.5 meters is the official width'') =
     js ''3'' @ PERIOD # js ''5 meters is the official width'' \<and>
   js ''3'' \<noteq> [] \<and> list_all isDigit (js ''3'') \<and>
   formatLine 2 (js ''3.5 meters is the official width'') =
     Inr (Some (2, SectionHeader (js ''5 meters is the official width'')))"
proof -
  let ?line = "js ''3.5 meters is the official width''"
  let ?rest = "js ''5 meters is the official width''"
  have h1: "cleanLine ?line = js ''3'' @ PERIOD # ?rest" by code_simp
  have h2: "js ''3'' \<noteq> []" by code_simp
  have h3: "list_all isDigit (js ''3'')" by code_simp
  have t: "dropWhile isWhiteSpace ?rest = ?rest" by code_simp
  have hyp: "cleanLine ?line = js ''3'' @ PERIOD # ?rest \<and> js ''3'' \<noteq> [] \<and> list_all isDigit (js ''3'')"
    using h1 h2 h3 by blast
  from decimal_number_becomes_header [of ?line "js ''3''" ?rest 2, THEN conjunct1, rule_format, OF hyp]
    h1 h2 h3
  show ?thesis unfolding t by blast
qed


section \<open>Markdown characters\<close>

lemma filter_dropWhile_disjoint:
  "(\<And>c. P c \<Longrightarrow> \<not> Q c) \<Longrightarrow> filter P (dropWhile Q s) = filter P s"
  by (induction s) auto

lemma filter_trim:
  assumes "\<And>c. P c \<Longrightarrow> \<not> isWhiteSpace c"
  shows "filter P (trim s) = filter P s"
proof -
  have "filter P (trim s) = rev (filter P (dropWhile isWhiteSpace (rev (dropWhile isWhiteSpace s))))"
    by (simp add: trim_def rev_filter)
  also have "\<dots> = rev (filter P (rev (dropWhile isWhiteSpace s)))"
    using assms by (simp add: filter_dropWhile_disjoint)
  also have "\<dots> = filter P (dropWhile isWhiteSpace s)"
    by (simp add: rev_filter)
  also have "\<dots> = filter P s"
    using assms by (simp add: filter_dropWhile_disjoint)
  finally show ?thesis .
qed

lemma formatAnalysis_element:
  assumes "formatAnalysis text = Inr els" and "e \<in> set els"
  shows "\<exists>l. formatLine (fst e) l = Inr (Some e)"
proof -
  let ?nb = "[(k, l) \<leftarrow> enumerate 0 (split NEWLINE text). cleanLine l \<noteq> []]"
  obtain raw where raw: "mapIndexed formatLine 0 (split NEWLINE text) = Inr raw"
    and fb: "filterBoolean raw = map (\<lambda>(k, l). the (projr (formatLine k l))) ?nb"
    using mapIndexed_formatLine by blast
  from assms raw fb have "e \<in> set (map (\<lambda>(k, l). the (projr (formatLine k l))) ?nb)"
    by (simp add: formatAnalysis_def)
  then obtain k l where e: "e = the (projr (formatLine k l))" and "cleanLine l \<noteq> []"
    by auto
  then obtain seg where "formatLine k l = Inr (Some (k, seg))"
    using formatLine_nonblank by blast
  with e show ?thesis by auto
qed

lemma set_headerStrip: "set (headerStrip s) \<subseteq> set s"
proof -
  have "set (dropWhile isWhiteSpace (drop 1 (dropWhile isDigit s))) \<subseteq> set (drop 1 (dropWhile isDigit s))"
    using set_dropWhileD by fastforce
  also have "\<dots> \<subseteq> set (dropWhile isDigit s)"
    by (rule set_drop_subset)
  also have "\<dots> \<subseteq> set s"
    using set_dropWhileD by fastforce
  finally show ?thesis by (simp add: headerStrip_def)
qed

lemma formatLine_strings:
  assumes "formatLine k l = Inr (Some (k', seg))" and "s \<in> set (segmentStrings seg)"
  shows "set s \<subseteq> insert COLON (set (cleanLine l))"
proof -
  let ?clean = "cleanLine l"
  have field: "set (trim p) \<subseteq> insert COLON (set ?clean)"
      and rest: "set (trim (join COLON ps)) \<subseteq> insert COLON (set ?clean)"
    if "split COLON (substring ?clean 1) = p # ps" for p ps
  proof -
    have parts: "set q \<subseteq> set ?clean" if "q \<in> set (p # ps)" for q
    proof -
      from that \<open>split COLON (substring ?clean 1) = p # ps\<close>
      have "set q \<subseteq> set (substring ?clean 1)"
        using set_split [of q COLON "substring ?clean 1"] by simp
      also have "\<dots> \<subseteq> set ?clean"
        by (simp add: substring_def set_drop_subset)
      finally show ?thesis .
    qed
    show "set (trim p) \<subseteq> insert COLON (set ?clean)"
      using set_trim [of p] parts [of p] by auto
    have "set (join COLON ps) \<subseteq> insert COLON (\<Union>(set ` set ps))"
      by (rule set_join)
    also have "\<dots> \<subseteq> insert COLON (set ?clean)"
      using parts by auto
    finally show "set (trim (join COLON ps)) \<subseteq> insert COLON (set ?clean)"
      using set_trim [of "join COLON ps"] by blast
  qed
  have bullet: "set (trim (substring ?clean 1)) \<subseteq> insert COLON (set ?clean)"
    using set_trim [of "substring ?clean 1"] set_drop_subset [of 1 ?clean]
    by (auto simp: substring_def)
  have header: "set (headerStrip ?clean) \<subseteq> insert COLON (set ?clean)"
    using set_headerStrip [of ?clean] by auto
  from assms show ?thesis
    using field rest bullet header
    by (auto simp: formatLine_def Let_def split: if_splits list.splits)
qed

text \<open>
  Claim C6. The decoration step deletes the characters \<^verbatim>\<open>*\<close>, \<^verbatim>\<open>_\<close>, \<^verbatim>\<open>#\<close> and
  the backtick and nothing else, so the colons and dashes of a line, in their order, are
  those of the line after the step and also those of the clean line, on which the
  classification works. The text \<^verbatim>\<open>**- Colors**: Red, White, Blue\<close> gives the one
  \<open>LabeledField\<close> with label \<^verbatim>\<open>Colors\<close> and value \<^verbatim>\<open>Red, White, Blue\<close>.
\<close>

theorem markdown_stripping_keeps_colon_and_dash:
  "removeMarkdown line =
     [c \<leftarrow> line. c \<noteq> ASTERISK \<and> c \<noteq> UNDERSCORE \<and> c \<noteq> HASH \<and> c \<noteq> BACKTICK] \<and>
   [c \<leftarrow> removeMarkdown line. c = COLON \<or> c = DASH] = [c \<leftarrow> line. c = COLON \<or> c = DASH] \<and>
   [c \<leftarrow> cleanLine line. c = COLON \<or> c = DASH] = [c \<leftarrow> line. c = COLON \<or> c = DASH] \<and>
   formatAnalysis (js ''**- Colors**: Red, White, Blue'') =
     Inr [(0, LabeledField (js ''Colors'') (js ''Red, White, Blue''))]"
proof (intro conjI)
  show "removeMarkdown line =
     [c \<leftarrow> line. c \<noteq> ASTERISK \<and> c \<noteq> UNDERSCORE \<and> c \<noteq> HASH \<and> c \<noteq> BACKTICK]"
    by (simp add: removeMarkdown_def isMarkdown_def)
  have keep: "\<not> isMarkdown c" if "c = COLON \<or> c = DASH" for c
    using that COLON_not_markdown DASH_not_markdown by auto
  show strip: "[c \<leftarrow> removeMarkdown line. c = COLON \<or> c = DASH] = [c \<leftarrow> line. c = COLON \<or> c = DASH]"
    unfolding removeMarkdown_def filter_filter
    by (rule filter_cong [OF refl]) (use keep in blast)
  have "\<not> isWhiteSpace c" if "c = COLON \<or> c = DASH" for c
    using that COLON_not_space DASH_not_space by auto
  then have "[c \<leftarrow> cleanLine line. c = COLON \<or> c = DASH] =
             [c \<leftarrow> removeMarkdown line. c = COLON \<or> c = DASH]"
    unfolding cleanLine_def by (rule filter_trim)
  with strip show "[c \<leftarrow> cleanLine line. c = COLON \<or> c = DASH] = [c \<leftarrow> line. c = COLON \<or> c = DASH]"
    by simp
  show "formatAnalysis (js ''**- Colors**: Red, White, Blue'') =
     Inr [(0, LabeledField (js ''Colors'') (js ''Red, White, Blue''))]"
    by code_simp
qed

text \<open>
  Claim C9. Cleaning deletes every occurrence of \<^verbatim>\<open>*\<close>, \<^verbatim>\<open>_\<close>, \<^verbatim>\<open>#\<close> and the
  backtick, wherever it stands in the line, so none of them is left in the clean line and
  none occurs in the title, label, value or text of an emitted element: the identifier
  \<^verbatim>\<open>Hex_Color\<close> loses its underscore and the colour code \<^verbatim>\<open>#FF0000\<close> its hash.
\<close>

theorem no_markdown_character_survives:
  "[c \<leftarrow> removeMarkdown line. isMarkdown c] = [] \<and>
   [c \<leftarrow> cleanLine line. isMarkdown c] = [] \<and>
   (formatAnalysis text = Inr els \<and> (k, seg) \<in> set els \<and> s \<in> set (segmentStrings seg) \<longrightarrow>
      [c \<leftarrow> s. isMarkdown c] = []) \<and>
   formatAnalysis (js ''- Hex_Color: #FF0000'') =
     Inr [(0, LabeledField (js ''HexColor'') (js ''FF0000''))]"
proof (intro conjI impI)
  show "[c \<leftarrow> removeMarkdown line. isMarkdown c] = []"
    by (simp add: removeMarkdown_def)
  show "[c \<leftarrow> cleanLine line. isMarkdown c] = []"
    using cleanLine_no_markdown [of _ line] by (simp add: filter_empty_conv)
  show "formatAnalysis (js ''- Hex_Color: #FF0000'') =
     Inr [(0, LabeledField (js ''HexColor'') (js ''FF0000''))]"
    by code_simp
next
  assume h: "formatAnalysis text = Inr els \<and> (k, seg) \<in> set els \<and> s \<in> set (segmentStrings seg)"
  then obtain l where "formatLine (fst (k, seg)) l = Inr (Some (k, seg))"
    using formatAnalysis_element [of "text" els "(k, seg)"] by blast
  with h have "set s \<subseteq> insert COLON (set (cleanLine l))"
    using formatLine_strings [of k l k seg s] by simp
  then have "\<not> isMarkdown c" if "c \<in> set s" for c
    using that COLON_not_markdown cleanLine_no_markdown [of c l] by auto
  then show "[c \<leftarrow> s. isMarkdown c] = []"
    by (simp add: filter_empty_conv)
qed

text \<open>
  The hypotheses of C9 hold for the value of the field emitted for
  \<^verbatim>\<open>- Hex_Color: #FF0000\<close>.
\<close>

theorem no_markdown_character_witness:
  "formatAnalysis (js ''- Hex_Color: #FF0000'') =
     Inr [(0, LabeledField (js ''HexColor'') (js ''FF0000''))] \<and>
   (0, LabeledField (js ''HexColor'') (js ''FF0000'')) \<in>
     set [(0, LabeledField (js ''HexColor'') (js ''FF0000''))] \<and>
   js ''FF0000'' \<in> set (segmentStrings (LabeledField (js ''HexColor'') (js ''FF0000''))) \<and>
   [c \<leftarrow> js ''FF0000''. isMarkdown c] = []"
proof -
  let ?seg = "LabeledField (js ''HexColor'') (js ''FF0000'')"
  have h1: "formatAnalysis (js ''- Hex_Color: #FF0000'') = Inr [(0, ?seg)]" by code_simp
  have h2: "(0, ?seg) \<in> set [(0, ?seg)]" by simp
  have h3: "js ''FF0000'' \<in> set (segmentStrings ?seg)" by simp
  have hyp: "formatAnalysis (js ''- Hex_Color: #FF0000'') = Inr [(0, ?seg)] \<and>
    (0, ?seg) \<in> set [(0, ?seg)] \<and> js ''FF0000'' \<in> set (segmentStrings ?seg)"
    using h1 h2 h3 by blast
  from no_markdown_character_survives
        [of "[]" "js ''- Hex_Color: #FF0000''" "[(0, ?seg)]" 0 ?seg "js ''FF0000''",
         THEN conjunct2, THEN conjunct2, THEN conjunct1, rule_format, OF hyp] h1 h2 h3
  show ?thesis by blast
qed


section \<open>Image intake\<close>

lemma handleImageUpload_rejects:
  assumes "\<not> (startsWith (file_type f) (js ''image/'') \<and> file_size f \<le> MAX_SIZE)"
  shows "\<exists>msg. handleImageUpload (Some f) s = (s\<lparr>error := Some msg\<rparr>, [])"
  using assms by auto

lemma handleImageUpload_accepts:
  assumes "startsWith (file_type f) (js ''image/'')" and "file_size f \<le> MAX_SIZE"
  shows "handleImageUpload (Some f) s = (s, [ReadAsDataURL f, ResetFileInput])"
  using assms by simp

lemma listed_types_are_images:
  "startsWith (js ''image/jpeg'') (js ''image/'')"
  "startsWith (js ''image/png'') (js ''image/'')"
  "startsWith (js ''image/webp'') (js ''image/'')"
  by code_simp+

text \<open>
  Claim C3, as stated, lets the intake accept JPEG, PNG and WEBP files only. The handler
  tests that the MIME type starts with \<^verbatim>\<open>image/\<close>; the list of types is the
  \<^verbatim>\<open>accept\<close> attribute of the input, a filter of the file picker. A GIF file of 1024 bytes
  is in neither list, yet the handler starts reading it, and the read ends in an analysis
  request.
\<close>

theorem gif_accepted_counterexample:
  "js ''image/gif'' \<notin> set acceptAttribute \<and>
   js ''image/gif'' \<notin> {js ''image/jpeg'', js ''image/png'', js ''image/webp''} \<and>
   handleImageUpload (Some \<lparr>file_type = js ''image/gif'', file_size = 1024\<rparr>) initialState =
     (initialState, [ReadAsDataURL \<lparr>file_type = js ''image/gif'', file_size = 1024\<rparr>, ResetFileInput]) \<and>
   snd (readerOnloadend (Some (js ''data:image/gif;base64,R0lGODlh'')) initialState) =
     [AnalyzeImage (Some (js ''data:image/gif;base64,R0lGODlh'')) flagPrompt]"
proof (intro conjI)
  show "js ''image/gif'' \<notin> set acceptAttribute" by code_simp
  show "js ''image/gif'' \<notin> {js ''image/jpeg'', js ''image/png'', js ''image/webp''}" by code_simp
  have "startsWith (js ''image/gif'') (js ''image/'')" by code_simp
  then show "handleImageUpload (Some \<lparr>file_type = js ''image/gif'', file_size = 1024\<rparr>) initialState =
     (initialState, [ReadAsDataURL \<lparr>file_type = js ''image/gif'', file_size = 1024\<rparr>, ResetFileInput])"
    by (simp add: MAX_SIZE_def)
  show "snd (readerOnloadend (Some (js ''data:image/gif;base64,R0lGODlh'')) initialState) =
     [AnalyzeImage (Some (js ''data:image/gif;base64,R0lGODlh'')) flagPrompt]"
    by (simp add: readerOnloadend_def handleAnalyze_def)
qed

text \<open>
  Claim C3, amended. The handler accepts a file (it starts reading it) exactly when its MIME
  type starts with \<^verbatim>\<open>image/\<close> and its size is at most 20 MB, that is 20971520 bytes;
  every other file is rejected: an error string is set, nothing else of the state changes,
  and nothing is read or requested. JPEG, PNG and WEBP files of at most 20 MB are accepted.
\<close>

theorem intake_accepts_images_up_to_max_size:
  "(snd (handleImageUpload (Some f) s) = [ReadAsDataURL f, ResetFileInput] \<longleftrightarrow>
      startsWith (file_type f) (js ''image/'') \<and> file_size f \<le> MAX_SIZE) \<and>
   (\<not> (startsWith (file_type f) (js ''image/'') \<and> file_size f \<le> MAX_SIZE) \<longrightarrow>
      (\<exists>msg. handleImageUpload (Some f) s = (s\<lparr>error := Some msg\<rparr>, []))) \<and>
   (file_type f \<in> {js ''image/jpeg'', js ''image/png'', js ''image/webp''} \<and>
    file_size f \<le> MAX_SIZE \<longrightarrow>
      handleImageUpload (Some f) s = (s, [ReadAsDataURL f, ResetFileInput])) \<and>
   MAX_SIZE = 20971520"
proof (intro conjI impI)
  show "snd (handleImageUpload (Some f) s) = [ReadAsDataURL f, ResetFileInput] \<longleftrightarrow>
      startsWith (file_type f) (js ''image/'') \<and> file_size f \<le> MAX_SIZE"
    by auto
  show "MAX_SIZE = 20971520"
    by (simp add: MAX_SIZE_def)
next
  assume "\<not> (startsWith (file_type f) (js ''image/'') \<and> file_size f \<le> MAX_SIZE)"
  then show "\<exists>msg. handleImageUpload (Some f) s = (s\<lparr>error := Some msg\<rparr>, [])"
    by (rule handleImageUpload_rejects)
next
  assume h: "file_type f \<in> {js ''image/jpeg'', js ''image/png'', js ''image/webp''} \<and>
    file_size f \<le> MAX_SIZE"
  then have "startsWith (file_type f) (js ''image/'')"
    using listed_types_are_images by auto
  with h show "handleImageUpload (Some f) s = (s, [ReadAsDataURL f, ResetFileInput])"
    by (simp add: handleImageUpload_accepts)
qed

text \<open>
  The hypotheses of the amended C3 hold for a PDF file, which is rejected, and for a PNG
  file of exactly 20 MB, which is accepted.
\<close>

theorem intake_witness:
  "\<not> (startsWith (js ''application/pdf'') (js ''image/'') \<and> (1024::nat) \<le> MAX_SIZE) \<and>
   (\<exists>msg. handleImageUpload (Some \<lparr>file_type = js ''application/pdf'', file_size = 1024\<rparr>) initialState =
      (initialState\<lparr>error := Some msg\<rparr>, [])) \<and>
   js ''image/png'' \<in> {js ''image/jpeg'', js ''image/png'', js ''image/webp''} \<and>
   (20971520::nat) \<le> MAX_SIZE \<and>
   handleImageUpload (Some \<lparr>file_type = js ''image/png'', file_size = 20971520\<rparr>) initialState =
     (initialState, [ReadAsDataURL \<lparr>file_type = js ''image/png'', file_size = 20971520\<rparr>, ResetFileInput])"
proof -
  let ?pdf = "\<lparr>file_type = js ''application/pdf'', file_size = 1024\<rparr>"
  let ?png = "\<lparr>file_type = js ''image/png'', file_size = 20971520\<rparr>"
  have "\<not> startsWith (js ''application/pdf'') (js ''image/'')" by code_simp
  then have h1: "\<not> (startsWith (file_type ?pdf) (js ''image/'') \<and> file_size ?pdf \<le> MAX_SIZE)"
    by simp
  have h2: "file_type ?png \<in> {js ''image/jpeg'', js ''image/png'', js ''image/webp''} \<and>
            file_size ?png \<le> MAX_SIZE"
    by (simp add: MAX_SIZE_def)
  from intake_accepts_images_up_to_max_size [of ?pdf initialState, THEN conjunct2, THEN conjunct1,
        rule_format, OF h1]
    intake_accepts_images_up_to_max_size [of ?png initialState, THEN conjunct2, THEN conjunct2,
        THEN conjunct1, rule_format, OF h2]
    h1 h2
  show ?thesis by simp
qed

text \<open>
  Claim C8. When the handler rejects a file, for a type that is not an image or for a size
  above 20 MB, it sets the error string and returns: no read is started, so no analysis
  request follows, and the image, the analysis text and the loading flag are as before.
\<close>

theorem rejected_upload_changes_only_error:
  "(\<not> startsWith (file_type f) (js ''image/'') \<longrightarrow>
      handleImageUpload (Some f) s =
        (s\<lparr>error := Some (js ''Please upload a valid image file'')\<rparr>, [])) \<and>
   (startsWith (file_type f) (js ''image/'') \<and> MAX_SIZE < file_size f \<longrightarrow>
      handleImageUpload (Some f) s =
        (s\<lparr>error := Some (js ''Image size should be less than 20MB'')\<rparr>, [])) \<and>
   (\<not> startsWith (file_type f) (js ''image/'') \<or> MAX_SIZE < file_size f \<longrightarrow>
      snd (handleImageUpload (Some f) s) = [] \<and>
      error (fst (handleImageUpload (Some f) s)) \<noteq> None \<and>
      image_st (fst (handleImageUpload (Some f) s)) = image_st s \<and>
      analysis (fst (handleImageUpload (Some f) s)) = analysis s \<and>
      loading (fst (handleImageUpload (Some f) s)) = loading s)"
  by auto

text \<open>
  The hypotheses of C8 hold for a PDF file and for a PNG file one byte above 20 MB, both
  uploaded while an image and its analysis are shown.
\<close>

theorem rejected_upload_witness:
  "\<not> startsWith (js ''application/pdf'') (js ''image/'') \<and>
   handleImageUpload (Some \<lparr>file_type = js ''application/pdf'', file_size = 1024\<rparr>)
       \<lparr>image_st = Some (js ''data:image/jpeg;base64,AAAA''), analysis = js ''1. Flag Identification:'',
        loading = False, error = None\<rparr> =
     (\<lparr>image_st = Some (js ''data:image/jpeg;base64,AAAA''), analysis = js ''1. Flag Identification:'',
       loading = False, error = Some (js ''Please upload a valid image file'')\<rparr>, []) \<and>
   startsWith (js ''image/png'') (js ''image/'') \<and> MAX_SIZE < (20971521::nat) \<and>
   handleImageUpload (Some \<lparr>file_type = js ''image/png'', file_size = 20971521\<rparr>)
       \<lparr>image_st = Some (js ''data:image/jpeg;base64,AAAA''), analysis = js ''1. Flag Identification:'',
        loading = False, error = None\<rparr> =
     (\<lparr>image_st = Some (js ''data:image/jpeg;base64,AAAA''), analysis = js ''1. Flag Identification:'',
       loading = False, error = Some (js ''Image size should be less than 20MB'')\<rparr>, [])"
proof -
  let ?pdf = "\<lparr>file_type = js ''application/pdf'', file_size = 1024\<rparr>"
  let ?big = "\<lparr>file_type = js ''image/png'', file_size = 20971521\<rparr>"
  let ?shown = "\<lparr>image_st = Some (js ''data:image/jpeg;base64,AAAA''),
     analysis = js ''1. Flag Identification:'', loading = False, error = None\<rparr>"
  have p: "\<not> startsWith (js ''application/pdf'') (js ''image/'')" by code_simp
  then have h1: "\<not> startsWith (file_type ?pdf) (js ''image/'')" by simp
  have q: "startsWith (js ''image/png'') (js ''image/'')" by code_simp
  have r: "MAX_SIZE < (20971521::nat)" by (simp add: MAX_SIZE_def)
  from q r have h2: "startsWith (file_type ?big) (js ''image/'') \<and> MAX_SIZE < file_size ?big"
    by simp
  from rejected_upload_changes_only_error [of ?pdf ?shown, THEN conjunct1, rule_format, OF h1]
    rejected_upload_changes_only_error [of ?big ?shown, THEN conjunct2, THEN conjunct1, rule_format, OF h2]
    p q r
  show ?thesis by simp
qed

section \<open>Failures and the displayed state\<close>

text \<open>
  Claim C4, as stated, has the pair of image and analysis text replaced as a whole, and
  only when a request succeeds. The source sets the image when the uploaded file has been
  read, before the request is made. With an image and its analysis on the page, an upload
  whose analysis fails leaves the new image beside the analysis of the old one.
\<close>

theorem failed_analysis_after_upload_counterexample:
  "run [Upload (Some \<lparr>file_type = js ''image/png'', file_size = 1024\<rparr>),
        ReaderLoadEnd (Some (js ''data:image/png;base64,NEW'')),
        AnalysisSettled (Rejected (ErrorObject (js ''Failed to fetch'')))]
       \<lparr>image_st = Some (js ''data:image/jpeg;base64,OLD''), analysis = js ''1. Flag Identification:'',
        loading = False, error = None\<rparr> =
     \<lparr>image_st = Some (js ''data:image/png;base64,NEW''), analysis = js ''1. Flag Identification:'',
      loading = False, error = Some (js ''Failed to fetch'')\<rparr> \<and>
   js ''data:image/png;base64,NEW'' \<noteq> js ''data:image/jpeg;base64,OLD''"
proof (intro conjI)
  have "startsWith (js ''image/png'') (js ''image/'')" by code_simp
  then show "run [Upload (Some \<lparr>file_type = js ''image/png'', file_size = 1024\<rparr>),
        ReaderLoadEnd (Some (js ''data:image/png;base64,NEW'')),
        AnalysisSettled (Rejected (ErrorObject (js ''Failed to fetch'')))]
       \<lparr>image_st = Some (js ''data:image/jpeg;base64,OLD''), analysis = js ''1. Flag Identification:'',
        loading = False, error = None\<rparr> =
     \<lparr>image_st = Some (js ''data:image/png;base64,NEW''), analysis = js ''1. Flag Identification:'',
      loading = False, error = Some (js ''Failed to fetch'')\<rparr>"
    by (simp add: MAX_SIZE_def readerOnloadend_def handleAnalyze_def)
  show "js ''data:image/png;base64,NEW'' \<noteq> js ''data:image/jpeg;base64,OLD''"
    by code_simp
qed

text \<open>What a failed and a successful request change, and which events change what.\<close>

lemma handleAnalyzeSettled_Rejected:
  "image_st (handleAnalyzeSettled (Rejected t) s) = image_st s"
  "analysis (handleAnalyzeSettled (Rejected t) s) = analysis s"
  "error (handleAnalyzeSettled (Rejected t) s) \<noteq> None"
  "loading (handleAnalyzeSettled (Rejected t) s) = False"
  by (cases t; simp)+

lemma step_changes_analysis:
  "analysis (fst (step e s)) \<noteq> analysis s \<Longrightarrow>
   (\<exists>r. e = AnalysisSettled (Resolved r)) \<or> (\<exists>b. e = DefaultReaderLoadEnd b)"
proof (cases e)
  case (Upload fo)
  assume "analysis (fst (step e s)) \<noteq> analysis s"
  with Upload show ?thesis by (cases fo) (auto split: if_splits)
next
  case (AnalysisSettled out)
  assume "analysis (fst (step e s)) \<noteq> analysis s"
  with AnalysisSettled show ?thesis
    by (cases out) (auto simp: handleAnalyzeSettled_Rejected)
qed (auto simp: readerOnloadend_def readerOnerror_def identifyClick_def handleAnalyze_def
      loadDefaultContent_def defaultFetchSettled_def defaultReaderOnerror_def
      split: option.splits if_splits)

lemma step_changes_image:
  "image_st (fst (step e s)) \<noteq> image_st s \<Longrightarrow>
   (\<exists>b. e = ReaderLoadEnd b) \<or> (\<exists>b. e = DefaultReaderLoadEnd b)"
proof (cases e)
  case (Upload fo)
  assume "image_st (fst (step e s)) \<noteq> image_st s"
  with Upload show ?thesis by (cases fo) (auto split: if_splits)
next
  case (AnalysisSettled out)
  assume "image_st (fst (step e s)) \<noteq> image_st s"
  with AnalysisSettled show ?thesis
    by (cases out) (auto simp: handleAnalyzeSettled_Rejected)
qed (auto simp: readerOnloadend_def readerOnerror_def identifyClick_def handleAnalyze_def
      loadDefaultContent_def defaultFetchSettled_def defaultReaderOnerror_def
      split: option.splits if_splits)

text \<open>
  Claim C4, amended. A failed analysis request sets the error and changes neither the image
  nor the analysis text; a successful one replaces the analysis text by the result and
  leaves the image. The image is replaced when an uploaded file has been read, before the
  request is made and whatever its outcome; the analysis text is then still the previous
  one. A failed re-analysis of the shown image changes neither. Of all events, only a
  successful request changes the analysis text, and only the end of a read changes the
  image; the one exception is the default content loaded after mounting, which sets both.
\<close>

theorem failure_keeps_analysis_text:
  "image_st (handleAnalyzeSettled (Rejected t) s) = image_st s \<and>
   analysis (handleAnalyzeSettled (Rejected t) s) = analysis s \<and>
   error (handleAnalyzeSettled (Rejected t) s) \<noteq> None \<and>
   analysis (handleAnalyzeSettled (Resolved r) s) = r \<and>
   image_st (handleAnalyzeSettled (Resolved r) s) = image_st s \<and>
   image_st (fst (readerOnloadend b s)) = b \<and>
   analysis (fst (readerOnloadend b s)) = analysis s \<and>
   image_st (run [IdentifyClick, AnalysisSettled (Rejected t)] s) = image_st s \<and>
   analysis (run [IdentifyClick, AnalysisSettled (Rejected t)] s) = analysis s \<and>
   (analysis (fst (step e s)) \<noteq> analysis s \<longrightarrow>
      (\<exists>r. e = AnalysisSettled (Resolved r)) \<or> (\<exists>b. e = DefaultReaderLoadEnd b)) \<and>
   (image_st (fst (step e s)) \<noteq> image_st s \<longrightarrow>
      (\<exists>b. e = ReaderLoadEnd b) \<or> (\<exists>b. e = DefaultReaderLoadEnd b))"
proof (intro conjI impI)
  show "image_st (run [IdentifyClick, AnalysisSettled (Rejected t)] s) = image_st s"
    by (simp add: handleAnalyzeSettled_Rejected identifyClick_def handleAnalyze_def
          split: option.splits)
  show "analysis (run [IdentifyClick, AnalysisSettled (Rejected t)] s) = analysis s"
    by (simp add: handleAnalyzeSettled_Rejected identifyClick_def handleAnalyze_def
          split: option.splits)
next
  assume "analysis (fst (step e s)) \<noteq> analysis s"
  then show "(\<exists>r. e = AnalysisSettled (Resolved r)) \<or> (\<exists>b. e = DefaultReaderLoadEnd b)"
    by (rule step_changes_analysis)
next
  assume "image_st (fst (step e s)) \<noteq> image_st s"
  then show "(\<exists>b. e = ReaderLoadEnd b) \<or> (\<exists>b. e = DefaultReaderLoadEnd b)"
    by (rule step_changes_image)
qed (simp_all add: handleAnalyzeSettled_Rejected readerOnloadend_def readerOnerror_def
       handleAnalyze_def)

text \<open>
  The hypotheses of the amended C4 hold from the initial state: a successful request
  changes the analysis text, and the end of a read changes the image.
\<close>

theorem failure_keeps_analysis_text_witness:
  "analysis (fst (step (AnalysisSettled (Resolved (js ''1. Flag Identification:''))) initialState))
     \<noteq> analysis initialState \<and>
   ((\<exists>r. AnalysisSettled (Resolved (js ''1. Flag Identification:'')) = AnalysisSettled (Resolved r)) \<or>
    (\<exists>b. AnalysisSettled (Resolved (js ''1. Flag Identification:'')) = DefaultReaderLoadEnd b)) \<and>
   image_st (fst (step (ReaderLoadEnd (Some (js ''data:image/png;base64,NEW''))) initialState))
     \<noteq> image_st initialState \<and>
   ((\<exists>b. ReaderLoadEnd (Some (js ''data:image/png;base64,NEW'')) = ReaderLoadEnd b) \<or>
    (\<exists>b. ReaderLoadEnd (Some (js ''data:image/png;base64,NEW'')) = DefaultReaderLoadEnd b))"
proof -
  let ?e1 = "AnalysisSettled (Resolved (js ''1. Flag Identification:''))"
  let ?e2 = "ReaderLoadEnd (Some (js ''data:image/png;base64,NEW''))"
  have "js ''1. Flag Identification:'' \<noteq> []" by code_simp
  then have h1: "analysis (fst (step ?e1 initialState)) \<noteq> analysis initialState"
    by (simp add: initialState_def)
  have h2: "image_st (fst (step ?e2 initialState)) \<noteq> image_st initialState"
    by (simp add: initialState_def readerOnloadend_def handleAnalyze_def)
  note inst1 = failure_keeps_analysis_text [of OtherValue initialState "[]" None ?e1]
  note inst2 = failure_keeps_analysis_text [of OtherValue initialState "[]" None ?e2]
  from inst1 h1
  have c1: "(\<exists>r. ?e1 = AnalysisSettled (Resolved r)) \<or> (\<exists>b. ?e1 = DefaultReaderLoadEnd b)"
    by blast
  from inst2 h2
  have c2: "(\<exists>b. ?e2 = ReaderLoadEnd b) \<or> (\<exists>b. ?e2 = DefaultReaderLoadEnd b)"
    by blast
  from h1 c1 h2 c2 show ?thesis by blast
qed

end
